theory Spec2Isabelle
  imports Complex_Main "HOL-Library.Monad_Syntax"
begin

section \<open>The Von Koch snowflake viewer\<close>

text \<open>
  The program, \<^verbatim>\<open>von_koch.py\<close>, is one Python class, \<^verbatim>\<open>VonKochApp\<close>: a recursive
  generator of the points of a Koch curve, a routine that draws the snowflake for the
  current view, and the handlers that Tk calls on mouse and keyboard events.

  Numbers: Python floats are modelled by \<^typ>\<open>real\<close> (exact arithmetic, no rounding, no
  NaN or infinity), and the recursion level, a Python integer, by \<^typ>\<open>int\<close>.
  A method that may recurse forever returns an \<open>option\<close>: \<open>None\<close> means that the call
  does not return a value.
\<close>

subsection \<open>The functions of Python's math module that the program calls\<close>

text \<open>
  \<^verbatim>\<open>math.atan2(y, x)\<close>: the angle of the vector \<open>(x, y)\<close> in \<open>(-\<pi>, \<pi>]\<close>, and \<open>0\<close> for the
  zero vector. \<^verbatim>\<open>math.sqrt\<close>, \<^verbatim>\<open>math.cos\<close>, \<^verbatim>\<open>math.sin\<close> and \<^verbatim>\<open>math.pi\<close> are
  \<^const>\<open>sqrt\<close>, \<^const>\<open>cos\<close>, \<^const>\<open>sin\<close> and \<^const>\<open>pi\<close>.
\<close>

definition atan2 :: "real \<Rightarrow> real \<Rightarrow> real" where
  "atan2 y x =
     (if 0 < x then arctan (y / x)
      else if x < 0 then (if 0 \<le> y then arctan (y / x) + pi else arctan (y / x) - pi)
      else if 0 < y then pi / 2
      else if y < 0 then - (pi / 2)
      else 0)"

subsection \<open>The curve generator\<close>

type_synonym point = "real \<times> real"

text \<open>
  \<^verbatim>\<open>calculer_points_koch(self, x1, y1, x2, y2, niveau)\<close>. The only test that ends the
  recursion is \<^verbatim>\<open>niveau == 0\<close>; every other level calls the method four times at
  \<^verbatim>\<open>niveau-1\<close>. The slice \<^verbatim>\<open>segment[:-1]\<close> is \<^const>\<open>butlast\<close> (both give the empty list on
  the empty list).
\<close>

partial_function (option) calculer_points_koch ::
  "real \<Rightarrow> real \<Rightarrow> real \<Rightarrow> real \<Rightarrow> int \<Rightarrow> point list option" where
  "calculer_points_koch x1 y1 x2 y2 niveau =
     (if niveau = 0 then Some [(x1, y1), (x2, y2)]
      else
        let dx = x2 - x1;
            dy = y2 - y1;
            distance = sqrt (dx * dx + dy * dy);
            angle = atan2 dy dx;
            p1_x = x1 + dx / 3;
            p1_y = y1 + dy / 3;
            p3_x = x1 + 2 * dx / 3;
            p3_y = y1 + 2 * dy / 3;
            p2_x = p1_x + distance / 3 * cos (angle + pi / 3);
            p2_y = p1_y + distance / 3 * sin (angle + pi / 3)
        in do {
          segment1 \<leftarrow> calculer_points_koch x1 y1 p1_x p1_y (niveau - 1);
          segment2 \<leftarrow> calculer_points_koch p1_x p1_y p2_x p2_y (niveau - 1);
          segment3 \<leftarrow> calculer_points_koch p2_x p2_y p3_x p3_y (niveau - 1);
          segment4 \<leftarrow> calculer_points_koch p3_x p3_y x2 y2 (niveau - 1);
          Some (butlast segment1 @ butlast segment2 @ butlast segment3 @ segment4)
        })"

subsection \<open>The state of the application\<close>

text \<open>
  The attributes that \<^verbatim>\<open>__init__\<close> creates and the handlers read or write. The canvas is
  the list of its items, each polygon being the flat coordinate list given to
  \<^verbatim>\<open>create_polygon\<close>; of the two labels the record keeps the number shown, not the
  formatted text.
\<close>

record app =
  canvas_width :: real
  canvas_height :: real
  zoom :: real
  pan_x :: real
  pan_y :: real
  dragging :: bool
  last_x :: real
  last_y :: real
  niveau :: int
  canvas :: "real list list"
  info_zoom :: real
  info_niveau :: int

text \<open>A Tk event, with the attributes \<^verbatim>\<open>x\<close>, \<^verbatim>\<open>y\<close> and \<^verbatim>\<open>delta\<close> that the handlers read.\<close>

record event =
  ev_x :: real
  ev_y :: real
  ev_delta :: real

definition TAILLE_FLOCON :: real where
  "TAILLE_FLOCON = 600"

definition NIVEAU_RECURSION :: int where
  "NIVEAU_RECURSION = 4"

text \<open>The attributes as \<^verbatim>\<open>__init__\<close> sets them, before the first drawing.\<close>

definition etat_initial :: app where
  "etat_initial =
     \<lparr>canvas_width = 1000, canvas_height = 800, zoom = 1, pan_x = 0, pan_y = 0,
      dragging = False, last_x = 0, last_y = 0, niveau = NIVEAU_RECURSION,
      canvas = [], info_zoom = 1, info_niveau = NIVEAU_RECURSION\<rparr>"

subsection \<open>Drawing the snowflake\<close>

text \<open>The local variables of \<^verbatim>\<open>dessiner_flocon\<close> (lines 163 to 180), as functions of the state.\<close>

definition taille :: "app \<Rightarrow> real" where
  "taille s = TAILLE_FLOCON * zoom s"

definition centre_x :: "app \<Rightarrow> real" where
  "centre_x s = canvas_width s / 2 + pan_x s"

definition centre_y :: "app \<Rightarrow> real" where
  "centre_y s = canvas_height s / 2 + pan_y s"

definition hauteur :: "app \<Rightarrow> real" where
  "hauteur s = taille s * sqrt 3 / 2"

definition sommets :: "app \<Rightarrow> point \<times> point \<times> point" where
  "sommets s =
     (let x1 = centre_x s;
          y1 = centre_y s - hauteur s / 2;
          x2 = centre_x s - taille s / 2;
          y2 = centre_y s + hauteur s / 2;
          x3 = centre_x s + taille s / 2;
          y3 = centre_y s + hauteur s / 2
      in ((x1, y1), (x2, y2), (x3, y3)))"

text \<open>Lines 183 to 191: one curve for each side, and the list \<^verbatim>\<open>tous_points\<close>.\<close>

definition tous_points :: "app \<Rightarrow> point list option" where
  "tous_points s =
     (case sommets s of ((x1, y1), (x2, y2), (x3, y3)) \<Rightarrow>
        do {
          points_cote1 \<leftarrow> calculer_points_koch x1 y1 x2 y2 (niveau s);
          points_cote2 \<leftarrow> calculer_points_koch x2 y2 x3 y3 (niveau s);
          points_cote3 \<leftarrow> calculer_points_koch x3 y3 x1 y1 (niveau s);
          Some ([] @ butlast points_cote1 @ butlast points_cote2 @ butlast points_cote3)
        })"

text \<open>Line 194: \<^verbatim>\<open>[coord for point in tous_points for coord in point]\<close>.\<close>

definition points_plats :: "point list \<Rightarrow> real list" where
  "points_plats pts = concat (map (\<lambda>(px, py). [px, py]) pts)"

text \<open>
  \<^verbatim>\<open>dessiner_flocon\<close>: the canvas is emptied, the outline is computed and drawn as one
  polygon, and the zoom label is refreshed.
\<close>

definition dessiner_flocon :: "app \<Rightarrow> app option" where
  "dessiner_flocon s =
     (let s1 = s\<lparr>canvas := []\<rparr> in
      do {
        pts \<leftarrow> tous_points s1;
        Some (s1\<lparr>canvas := canvas s1 @ [points_plats pts], info_zoom := zoom s1\<rparr>)
      })"

subsection \<open>The handlers\<close>

definition commencer_deplacement :: "event \<Rightarrow> app \<Rightarrow> app" where
  "commencer_deplacement e s = s\<lparr>dragging := True, last_x := ev_x e, last_y := ev_y e\<rparr>"

definition deplacer :: "event \<Rightarrow> app \<Rightarrow> app option" where
  "deplacer e s =
     (if dragging s then
        let dx = ev_x e - last_x s;
            dy = ev_y e - last_y s
        in dessiner_flocon
             (s\<lparr>pan_x := pan_x s + dx, pan_y := pan_y s + dy,
                last_x := ev_x e, last_y := ev_y e\<rparr>)
      else Some s)"

definition arreter_deplacement :: "event \<Rightarrow> app \<Rightarrow> app" where
  "arreter_deplacement e s = s\<lparr>dragging := False\<rparr>"

definition zoomer_windows :: "event \<Rightarrow> app \<Rightarrow> app option" where
  "zoomer_windows e s =
     (let factor = 1 + ev_delta e / 1200;
          s1 = s\<lparr>zoom := zoom s * factor\<rparr>;
          s2 = s1\<lparr>zoom := max (1 / 10) (min 50 (zoom s1))\<rparr>
      in dessiner_flocon s2)"

definition zoomer_macos :: "event \<Rightarrow> app \<Rightarrow> app option" where
  "zoomer_macos e s =
     (let factor = 1 + ev_delta e / 120;
          s1 = s\<lparr>zoom := zoom s * factor\<rparr>;
          s2 = s1\<lparr>zoom := max (1 / 10) (min 50 (zoom s1))\<rparr>
      in dessiner_flocon s2)"

definition zoomer_in_linux :: "event \<Rightarrow> app \<Rightarrow> app option" where
  "zoomer_in_linux e s =
     (let s1 = s\<lparr>zoom := zoom s * (11 / 10)\<rparr>;
          s2 = s1\<lparr>zoom := min 50 (zoom s1)\<rparr>
      in dessiner_flocon s2)"

definition zoomer_out_linux :: "event \<Rightarrow> app \<Rightarrow> app option" where
  "zoomer_out_linux e s =
     (let s1 = s\<lparr>zoom := zoom s / (11 / 10)\<rparr>;
          s2 = s1\<lparr>zoom := max (1 / 10) (zoom s1)\<rparr>
      in dessiner_flocon s2)"

definition zoomer_clavier :: "bool \<Rightarrow> app \<Rightarrow> app option" where
  "zoomer_clavier zoom_in s =
     (let s1 = (if zoom_in then s\<lparr>zoom := zoom s * (12 / 10)\<rparr>
                else s\<lparr>zoom := zoom s / (12 / 10)\<rparr>);
          s2 = s1\<lparr>zoom := max (1 / 10) (min 50 (zoom s1))\<rparr>
      in dessiner_flocon s2)"

definition changer_niveau :: "int \<Rightarrow> app \<Rightarrow> app option" where
  "changer_niveau delta s =
     (let s1 = s\<lparr>niveau := niveau s + delta\<rparr>;
          s2 = s1\<lparr>niveau := max 0 (min 7 (niveau s1))\<rparr>;
          s3 = s2\<lparr>info_niveau := niveau s2\<rparr>
      in dessiner_flocon s3)"

text \<open>
  Tk's main loop runs the handlers one after the other, each to its end. A run is a list
  of handler calls; it has no result when one of the calls has none.
\<close>

datatype appel =
    Commencer_deplacement event
  | Deplacer event
  | Arreter_deplacement event
  | Zoomer_windows event
  | Zoomer_macos event
  | Zoomer_in_linux event
  | Zoomer_out_linux event
  | Zoomer_clavier bool
  | Changer_niveau int

fun executer :: "appel \<Rightarrow> app \<Rightarrow> app option" where
  "executer (Commencer_deplacement e) s = Some (commencer_deplacement e s)"
| "executer (Deplacer e) s = deplacer e s"
| "executer (Arreter_deplacement e) s = Some (arreter_deplacement e s)"
| "executer (Zoomer_windows e) s = zoomer_windows e s"
| "executer (Zoomer_macos e) s = zoomer_macos e s"
| "executer (Zoomer_in_linux e) s = zoomer_in_linux e s"
| "executer (Zoomer_out_linux e) s = zoomer_out_linux e s"
| "executer (Zoomer_clavier b) s = zoomer_clavier b s"
| "executer (Changer_niveau d) s = changer_niveau d s"

fun mainloop :: "appel list \<Rightarrow> app \<Rightarrow> app option" where
  "mainloop [] s = Some s"
| "mainloop (a # as) s = (case executer a s of None \<Rightarrow> None | Some s' \<Rightarrow> mainloop as s')"

section \<open>Properties of the curve generator\<close>

lemma koch_niveau_0:
  "calculer_points_koch x1 y1 x2 y2 0 = Some [(x1, y1), (x2, y2)]"
  by (subst calculer_points_koch.simps) simp

lemma koch_step:
  "n \<noteq> 0 \<Longrightarrow>
   calculer_points_koch x1 y1 x2 y2 n =
     do {
       segment1 \<leftarrow> calculer_points_koch x1 y1 (x1 + (x2 - x1) / 3) (y1 + (y2 - y1) / 3) (n - 1);
       segment2 \<leftarrow> calculer_points_koch (x1 + (x2 - x1) / 3) (y1 + (y2 - y1) / 3)
          (x1 + (x2 - x1) / 3 +
             sqrt ((x2 - x1) * (x2 - x1) + (y2 - y1) * (y2 - y1)) / 3 *
             cos (atan2 (y2 - y1) (x2 - x1) + pi / 3))
          (y1 + (y2 - y1) / 3 +
             sqrt ((x2 - x1) * (x2 - x1) + (y2 - y1) * (y2 - y1)) / 3 *
             sin (atan2 (y2 - y1) (x2 - x1) + pi / 3)) (n - 1);
       segment3 \<leftarrow> calculer_points_koch
          (x1 + (x2 - x1) / 3 +
             sqrt ((x2 - x1) * (x2 - x1) + (y2 - y1) * (y2 - y1)) / 3 *
             cos (atan2 (y2 - y1) (x2 - x1) + pi / 3))
          (y1 + (y2 - y1) / 3 +
             sqrt ((x2 - x1) * (x2 - x1) + (y2 - y1) * (y2 - y1)) / 3 *
             sin (atan2 (y2 - y1) (x2 - x1) + pi / 3))
          (x1 + 2 * (x2 - x1) / 3) (y1 + 2 * (y2 - y1) / 3) (n - 1);
       segment4 \<leftarrow> calculer_points_koch (x1 + 2 * (x2 - x1) / 3) (y1 + 2 * (y2 - y1) / 3) x2 y2 (n - 1);
       Some (butlast segment1 @ butlast segment2 @ butlast segment3 @ segment4)
     }"
  by (subst calculer_points_koch.simps) (simp only: Let_def if_False)

text \<open>A call that returns was made at a level that is not negative.\<close>

lemma koch_returns_nonneg:
  assumes "calculer_points_koch x1 y1 x2 y2 n = Some r"
  shows "0 \<le> n"
proof (rule calculer_points_koch.raw_induct
    [where P = "\<lambda>x1 y1 x2 y2 n r. 0 \<le> n", OF _ assms])
  fix f :: "real \<Rightarrow> real \<Rightarrow> real \<Rightarrow> real \<Rightarrow> int \<Rightarrow> point list option"
  fix a1 b1 a2 b2 :: real and k :: int and r :: "point list"
  assume IH: "\<And>x1 y1 x2 y2 m y. f x1 y1 x2 y2 m = Some y \<Longrightarrow> 0 \<le> m"
  assume body: "(if k = 0 then Some [(a1, b1), (a2, b2)]
      else
        let dx = a2 - a1;
            dy = b2 - b1;
            distance = sqrt (dx * dx + dy * dy);
            angle = atan2 dy dx;
            p1_x = a1 + dx / 3;
            p1_y = b1 + dy / 3;
            p3_x = a1 + 2 * dx / 3;
            p3_y = b1 + 2 * dy / 3;
            p2_x = p1_x + distance / 3 * cos (angle + pi / 3);
            p2_y = p1_y + distance / 3 * sin (angle + pi / 3)
        in do {
          segment1 \<leftarrow> f a1 b1 p1_x p1_y (k - 1);
          segment2 \<leftarrow> f p1_x p1_y p2_x p2_y (k - 1);
          segment3 \<leftarrow> f p2_x p2_y p3_x p3_y (k - 1);
          segment4 \<leftarrow> f p3_x p3_y a2 b2 (k - 1);
          Some (butlast segment1 @ butlast segment2 @ butlast segment3 @ segment4)
        }) = Some r"
  show "0 \<le> k"
  proof (cases "k = 0")
    case True
    then show ?thesis by simp
  next
    case False
    with body obtain s1
      where "f a1 b1 (a1 + (a2 - a1) / 3) (b1 + (b2 - b1) / 3) (k - 1) = Some s1"
      by (auto simp: Let_def bind_eq_Some_conv)
    then have "0 \<le> k - 1" by (rule IH)
    then show ?thesis by simp
  qed
qed

text \<open>
  At a level \<open>k \<ge> 0\<close> the call returns, and the curve is the start point, \<open>4 ^ k - 1\<close>
  inner points and the end point.
\<close>

lemma butlast_shape: "butlast (a # mid @ [b]) = a # mid"
  by (simp add: butlast_append)

lemma koch_shape:
  "\<exists>mid. calculer_points_koch x1 y1 x2 y2 (int k) = Some ((x1, y1) # mid @ [(x2, y2)]) \<and>
         Suc (length mid) = 4 ^ k"
proof (induction k arbitrary: x1 y1 x2 y2)
  case 0
  show ?case by (simp add: koch_niveau_0)
next
  case (Suc k)
  define p1_x where "p1_x = x1 + (x2 - x1) / 3"
  define p1_y where "p1_y = y1 + (y2 - y1) / 3"
  define p3_x where "p3_x = x1 + 2 * (x2 - x1) / 3"
  define p3_y where "p3_y = y1 + 2 * (y2 - y1) / 3"
  define p2_x where "p2_x = p1_x +
             sqrt ((x2 - x1) * (x2 - x1) + (y2 - y1) * (y2 - y1)) / 3 *
             cos (atan2 (y2 - y1) (x2 - x1) + pi / 3)"
  define p2_y where "p2_y = p1_y +
             sqrt ((x2 - x1) * (x2 - x1) + (y2 - y1) * (y2 - y1)) / 3 *
             sin (atan2 (y2 - y1) (x2 - x1) + pi / 3)"
  obtain m1 where m1: "calculer_points_koch x1 y1 p1_x p1_y (int k) = Some ((x1, y1) # m1 @ [(p1_x, p1_y)])"
    "Suc (length m1) = 4 ^ k" using Suc.IH by blast
  obtain m2 where m2: "calculer_points_koch p1_x p1_y p2_x p2_y (int k) = Some ((p1_x, p1_y) # m2 @ [(p2_x, p2_y)])"
    "Suc (length m2) = 4 ^ k" using Suc.IH by blast
  obtain m3 where m3: "calculer_points_koch p2_x p2_y p3_x p3_y (int k) = Some ((p2_x, p2_y) # m3 @ [(p3_x, p3_y)])"
    "Suc (length m3) = 4 ^ k" using Suc.IH by blast
  obtain m4 where m4: "calculer_points_koch p3_x p3_y x2 y2 (int k) = Some ((p3_x, p3_y) # m4 @ [(x2, y2)])"
    "Suc (length m4) = 4 ^ k" using Suc.IH by blast
  have nz: "int (Suc k) \<noteq> 0" and pred: "int (Suc k) - 1 = int k" by simp_all
  have "calculer_points_koch x1 y1 x2 y2 (int (Suc k)) =
      Some ((x1, y1) # (m1 @ (p1_x, p1_y) # m2 @ (p2_x, p2_y) # m3 @ (p3_x, p3_y) # m4) @ [(x2, y2)])"
    unfolding koch_step [OF nz] pred
    unfolding p1_x_def [symmetric] p1_y_def [symmetric] p3_x_def [symmetric] p3_y_def [symmetric]
    unfolding p2_x_def [symmetric] p2_y_def [symmetric]
    by (simp add: m1 m2 m3 m4 butlast_append)
  moreover have "Suc (length (m1 @ (p1_x, p1_y) # m2 @ (p2_x, p2_y) # m3 @ (p3_x, p3_y) # m4)) = 4 ^ Suc k"
    using m1(2) m2(2) m3(2) m4(2) by simp
  ultimately show ?case by blast
qed

text \<open>
  C1. For every level \<open>d \<ge> 0\<close> and every segment, \<^verbatim>\<open>calculer_points_koch\<close> returns a list
  of exactly \<open>4 ^ d + 1\<close> points; its first point is the start of the segment and its last
  point is the end.
\<close>

theorem koch_count_endpoints:
  assumes "0 \<le> d"
  shows "\<exists>r. calculer_points_koch x1 y1 x2 y2 d = Some r \<and> length r = 4 ^ nat d + 1 \<and>
            hd r = (x1, y1) \<and> last r = (x2, y2)"
proof -
  obtain mid
    where "calculer_points_koch x1 y1 x2 y2 (int (nat d)) = Some ((x1, y1) # mid @ [(x2, y2)])"
      and "Suc (length mid) = 4 ^ nat d"
    using koch_shape by blast
  with assms show ?thesis by simp
qed

theorem koch_count_endpoints_witness:
  "(0::int) \<le> 2 \<and>
   (\<exists>r. calculer_points_koch 0 0 3 0 2 = Some r \<and> length r = 17 \<and>
        hd r = (0, 0) \<and> last r = (3, 0))"
  using koch_count_endpoints [of 2 0 0 3 0] by simp

subsection \<open>The segment of length zero\<close>

text \<open>
  The method has no test for a segment whose two ends coincide: all the points it computes
  are then that point, and the recursion goes on to level 0 as for any other segment.
\<close>

lemma atan2_zero: "atan2 0 0 = 0"
  by (simp add: atan2_def)

lemma butlast_replicate_Suc: "butlast (replicate (Suc n) a) = replicate n a"
  by (induction n) auto

lemma koch_degenerate:
  "calculer_points_koch px py px py (int k) = Some (replicate (4 ^ k + 1) (px, py))"
proof (induction k)
  case 0
  show ?case by (simp add: koch_niveau_0)
next
  case (Suc k)
  have nz: "int (Suc k) \<noteq> 0" and pred: "int (Suc k) - 1 = int k" by simp_all
  have "replicate (4 ^ k) (px, py) @ replicate (4 ^ k) (px, py) @ replicate (4 ^ k) (px, py) @
          replicate (Suc (4 ^ k)) (px, py) = replicate (Suc (4 ^ Suc k)) (px, py)"
    by (simp add: replicate_add [symmetric] del: replicate_Suc replicate.simps)
  then show ?case
    unfolding koch_step [OF nz] pred
    by (simp add: Suc.IH butlast_replicate_Suc atan2_zero del: replicate_Suc replicate.simps power_Suc)
qed

text \<open>
  C3 (as the code has it). For every point \<open>P\<close> and every level \<open>d \<ge> 0\<close>,
  \<^verbatim>\<open>calculer_points_koch(P, P, d)\<close> returns, and its result is the list of \<open>4 ^ d + 1\<close>
  copies of \<open>P\<close>; this is the two-point list \<open>[P, P]\<close> at level 0 only.
\<close>

theorem koch_zero_length:
  assumes "0 \<le> d"
  shows "calculer_points_koch px py px py d = Some (replicate (4 ^ nat d + 1) (px, py)) \<and>
         (calculer_points_koch px py px py d = Some [(px, py), (px, py)] \<longleftrightarrow> d = 0)"
proof -
  have eq: "calculer_points_koch px py px py d = Some (replicate (4 ^ nat d + 1) (px, py))"
    using koch_degenerate [of px py "nat d"] assms by simp
  have "replicate (4 ^ nat d + 1) (px, py) = [(px, py), (px, py)] \<longleftrightarrow> d = 0"
  proof
    assume "replicate (4 ^ nat d + 1) (px, py) = [(px, py), (px, py)]"
    then have "length (replicate (4 ^ nat d + 1) (px, py)) = length [(px, py), (px, py)]"
      by (rule arg_cong)
    then have "(4::nat) ^ nat d = 1" by simp
    then have "nat d = 0" by simp
    with assms show "d = 0" by simp
  next
    assume "d = 0"
    then show "replicate (4 ^ nat d + 1) (px, py) = [(px, py), (px, py)]" by simp
  qed
  with eq show ?thesis by simp
qed

theorem koch_zero_length_witness:
  "(0::int) \<le> 1 \<and>
   calculer_points_koch 2 5 2 5 1 = Some [(2, 5), (2, 5), (2, 5), (2, 5), (2, 5)]"
  using koch_zero_length [of 1 2 5] by (simp add: numeral_eq_Suc)

text \<open>
  The claim as the specification words it (\<open>[P, P]\<close> at every level) fails at level 1:
  the result has five points.
\<close>

theorem koch_zero_length_counterexample:
  "calculer_points_koch 0 0 0 0 1 = Some [(0, 0), (0, 0), (0, 0), (0, 0), (0, 0)] \<and>
   calculer_points_koch 0 0 0 0 1 \<noteq> Some [(0, 0), (0, 0)]"
  using koch_step [of 1 0 0 0 0] by (simp add: koch_niveau_0)

subsection \<open>Negative levels\<close>

text \<open>
  C4 (as the code has it). The method has no test of the sign of the level and no failure
  value: at every negative level, for every segment, the call returns nothing, since the
  recursion moves away from the only base case \<^verbatim>\<open>niveau == 0\<close>.
\<close>

theorem koch_negative_level:
  assumes "d < 0"
  shows "calculer_points_koch x1 y1 x2 y2 d = None"
proof (cases "calculer_points_koch x1 y1 x2 y2 d")
  case None
  then show ?thesis .
next
  case (Some r)
  then have "0 \<le> d" by (rule koch_returns_nonneg)
  with assms show ?thesis by simp
qed

theorem koch_negative_level_witness:
  "(-1::int) < 0 \<and> calculer_points_koch 0 0 1 0 (-1) = None"
  using koch_negative_level [of "-1" 0 0 1 0] by simp

text \<open>
  The specification asks for an explicit failure value at a negative level; at level \<open>-1\<close>
  the call has no value at all.
\<close>

theorem koch_negative_level_counterexample:
  "calculer_points_koch 0 0 1 0 (-1) = None"
proof (cases "calculer_points_koch 0 0 1 0 (-1)")
  case None
  then show ?thesis .
next
  case (Some r)
  then have "(0::int) \<le> -1" by (rule koch_returns_nonneg)
  then show ?thesis by simp
qed

subsection \<open>The four segments of a step\<close>

text \<open>The angle that \<^const>\<open>atan2\<close> returns gives back the vector.\<close>

lemma sqrt_sum_pos:
  assumes "0 < x"
  shows "sqrt (x * x + y * y) = x * sqrt (1 + (y / x)\<^sup>2)"
proof -
  have "x * x + y * y = x\<^sup>2 * (1 + (y / x)\<^sup>2)"
    using assms by (simp add: power2_eq_square field_simps)
  then have "sqrt (x * x + y * y) = sqrt (x\<^sup>2 * (1 + (y / x)\<^sup>2))" by simp
  also have "\<dots> = \<bar>x\<bar> * sqrt (1 + (y / x)\<^sup>2)" by (simp add: real_sqrt_mult)
  finally show ?thesis using assms by simp
qed

lemma sqrt_sum_neg:
  assumes "x < 0"
  shows "sqrt (x * x + y * y) = - x * sqrt (1 + (y / x)\<^sup>2)"
proof -
  have "x * x + y * y = x\<^sup>2 * (1 + (y / x)\<^sup>2)"
    using assms by (simp add: power2_eq_square field_simps)
  then have "sqrt (x * x + y * y) = sqrt (x\<^sup>2 * (1 + (y / x)\<^sup>2))" by simp
  also have "\<dots> = \<bar>x\<bar> * sqrt (1 + (y / x)\<^sup>2)" by (simp add: real_sqrt_mult)
  finally show ?thesis using assms by simp
qed

lemma sqrt_one_plus_pos: "0 < sqrt (1 + (t::real)\<^sup>2)"
  by (simp add: add_pos_nonneg)

lemma atan2_cos: "sqrt (x * x + y * y) * cos (atan2 y x) = x"
proof -
  consider "0 < x" | "x < 0" | "x = 0" by linarith
  then show ?thesis
  proof cases
    case 1
    have nz: "sqrt (1 + (y / x)\<^sup>2) \<noteq> 0" using sqrt_one_plus_pos [of "y / x"] by simp
    show ?thesis using 1 nz by (simp add: atan2_def sqrt_sum_pos cos_arctan)
  next
    case 2
    have nz: "sqrt (1 + (y / x)\<^sup>2) \<noteq> 0" using sqrt_one_plus_pos [of "y / x"] by simp
    show ?thesis using 2 nz by (simp add: atan2_def sqrt_sum_neg cos_arctan)
  next
    case 3
    then show ?thesis by (simp add: atan2_def)
  qed
qed

lemma atan2_sin: "sqrt (x * x + y * y) * sin (atan2 y x) = y"
proof -
  consider "0 < x" | "x < 0" | "x = 0" by linarith
  then show ?thesis
  proof cases
    case 1
    have nz: "sqrt (1 + (y / x)\<^sup>2) \<noteq> 0" using sqrt_one_plus_pos [of "y / x"] by simp
    show ?thesis using 1 nz by (simp add: atan2_def sqrt_sum_pos sin_arctan)
  next
    case 2
    have nz: "sqrt (1 + (y / x)\<^sup>2) \<noteq> 0" using sqrt_one_plus_pos [of "y / x"] by simp
    show ?thesis using 2 nz by (simp add: atan2_def sqrt_sum_neg sin_arctan)
  next
    case 3
    then show ?thesis by (simp add: atan2_def)
  qed
qed

text \<open>The apex in Cartesian form: the third of the segment, turned by 60 degrees.\<close>

lemma pointe_x:
  "sqrt (dx * dx + dy * dy) / 3 * cos (atan2 dy dx + pi / 3) = (dx / 2 - dy * sqrt 3 / 2) / 3"
proof -
  have "sqrt (dx * dx + dy * dy) / 3 * cos (atan2 dy dx + pi / 3) =
      ((sqrt (dx * dx + dy * dy) * cos (atan2 dy dx)) / 2 -
       (sqrt (dx * dx + dy * dy) * sin (atan2 dy dx)) * sqrt 3 / 2) / 3"
    by (simp add: cos_add cos_60 sin_60 algebra_simps)
  then show ?thesis by (simp only: atan2_cos atan2_sin)
qed

lemma pointe_y:
  "sqrt (dx * dx + dy * dy) / 3 * sin (atan2 dy dx + pi / 3) = (dy / 2 + dx * sqrt 3 / 2) / 3"
proof -
  have "sqrt (dx * dx + dy * dy) / 3 * sin (atan2 dy dx + pi / 3) =
      ((sqrt (dx * dx + dy * dy) * sin (atan2 dy dx)) / 2 +
       (sqrt (dx * dx + dy * dy) * cos (atan2 dy dx)) * sqrt 3 / 2) / 3"
    by (simp add: sin_add cos_60 sin_60 algebra_simps)
  then show ?thesis by (simp only: atan2_cos atan2_sin)
qed


lemma bump_side_left:
  fixes a b t :: real
  assumes "t * t = 3"
  shows "((a / 2 - b * t / 2) / 3)\<^sup>2 + ((b / 2 + a * t / 2) / 3)\<^sup>2 = (a * a + b * b) / 9"
proof -
  have "((a / 2 - b * t / 2) / 3)\<^sup>2 + ((b / 2 + a * t / 2) / 3)\<^sup>2 =
      (a * a + b * b) * (1 + t * t) / 36"
    by (simp add: power2_eq_square field_simps)
  then show ?thesis by (simp add: assms)
qed

lemma bump_side_right:
  fixes a b t :: real
  assumes "t * t = 3"
  shows "((a / 2 + b * t / 2) / 3)\<^sup>2 + ((b / 2 - a * t / 2) / 3)\<^sup>2 = (a * a + b * b) / 9"
proof -
  have "((a / 2 + b * t / 2) / 3)\<^sup>2 + ((b / 2 - a * t / 2) / 3)\<^sup>2 =
      (a * a + b * b) * (1 + t * t) / 36"
    by (simp add: power2_eq_square field_simps)
  then show ?thesis by (simp add: assms)
qed

text \<open>
  C5. For a segment whose ends differ and a level \<open>d \<ge> 1\<close>, the call splices the curves of
  the four segments \<open>(start, p1)\<close>, \<open>(p1, p2)\<close>, \<open>(p2, p3)\<close>, \<open>(p3, end)\<close> at level \<open>d - 1\<close>,
  where \<open>p1 = start + d/3\<close>, \<open>p3 = start + 2d/3\<close> and the apex is
  \<open>p2 = p1 + (L/3) (cos (\<theta> + \<pi>/3), sin (\<theta> + \<pi>/3))\<close>, with \<open>L\<close> the length of the segment and
  \<open>\<theta> = atan2 dy dx\<close>. These points stand in the result at the multiples of \<open>4 ^ (d - 1)\<close>.
  The apex is not the middle of the segment: with \<open>p1\<close> and \<open>p3\<close> it makes a triangle
  whose three sides have the length \<open>L/3\<close>.
\<close>

theorem koch_control_points:
  assumes "(x1, y1) \<noteq> (x2, y2)" and "1 \<le> d"
  shows
    "let dx = x2 - x1;
         dy = y2 - y1;
         L = sqrt (dx * dx + dy * dy);
         \<theta> = atan2 dy dx;
         p1 = (x1 + dx / 3, y1 + dy / 3);
         p3 = (x1 + 2 * dx / 3, y1 + 2 * dy / 3);
         p2 = (fst p1 + L / 3 * cos (\<theta> + pi / 3), snd p1 + L / 3 * sin (\<theta> + pi / 3));
         q = 4 ^ nat (d - 1)
     in (\<exists>s1 s2 s3 s4 r.
           calculer_points_koch x1 y1 (fst p1) (snd p1) (d - 1) = Some s1 \<and>
           calculer_points_koch (fst p1) (snd p1) (fst p2) (snd p2) (d - 1) = Some s2 \<and>
           calculer_points_koch (fst p2) (snd p2) (fst p3) (snd p3) (d - 1) = Some s3 \<and>
           calculer_points_koch (fst p3) (snd p3) x2 y2 (d - 1) = Some s4 \<and>
           calculer_points_koch x1 y1 x2 y2 d = Some r \<and>
           r = butlast s1 @ butlast s2 @ butlast s3 @ s4 \<and>
           r ! 0 = (x1, y1) \<and> r ! q = p1 \<and> r ! (2 * q) = p2 \<and> r ! (3 * q) = p3 \<and>
           r ! (4 * q) = (x2, y2)) \<and>
        0 < L \<and>
        p2 \<noteq> ((x1 + x2) / 2, (y1 + y2) / 2) \<and>
        (fst p2 - fst p1)\<^sup>2 + (snd p2 - snd p1)\<^sup>2 = (L / 3)\<^sup>2 \<and>
        (fst p3 - fst p2)\<^sup>2 + (snd p3 - snd p2)\<^sup>2 = (L / 3)\<^sup>2 \<and>
        (fst p3 - fst p1)\<^sup>2 + (snd p3 - snd p1)\<^sup>2 = (L / 3)\<^sup>2"
proof -
  define dx where "dx = x2 - x1"
  define dy where "dy = y2 - y1"
  define L where "L = sqrt (dx * dx + dy * dy)"
  define p1_x where "p1_x = x1 + dx / 3"
  define p1_y where "p1_y = y1 + dy / 3"
  define p3_x where "p3_x = x1 + 2 * dx / 3"
  define p3_y where "p3_y = y1 + 2 * dy / 3"
  define p2_x where "p2_x = p1_x + L / 3 * cos (atan2 dy dx + pi / 3)"
  define p2_y where "p2_y = p1_y + L / 3 * sin (atan2 dy dx + pi / 3)"
  define k where "k = nat (d - 1)"
  define q :: nat where "q = 4 ^ k"
  have dk: "d - 1 = int k" and nz: "d \<noteq> 0" using assms(2) by (simp_all add: k_def)
  have nondeg: "dx \<noteq> 0 \<or> dy \<noteq> 0" using assms(1) by (auto simp: dx_def dy_def)
  then have sq_pos: "0 < dx * dx + dy * dy"
    by (metis add_pos_nonneg add_nonneg_pos zero_le_square not_real_square_gt_zero)
  have Lsq: "L\<^sup>2 = dx * dx + dy * dy"
    unfolding L_def using sq_pos by simp
  have Lpos: "0 < L" unfolding L_def using sq_pos by simp
  have p2x: "p2_x = p1_x + (dx / 2 - dy * sqrt 3 / 2) / 3"
    unfolding p2_x_def L_def by (simp only: pointe_x)
  have p2y: "p2_y = p1_y + (dy / 2 + dx * sqrt 3 / 2) / 3"
    unfolding p2_y_def L_def by (simp only: pointe_y)
  obtain m1 where m1: "calculer_points_koch x1 y1 p1_x p1_y (int k) = Some ((x1, y1) # m1 @ [(p1_x, p1_y)])"
    "Suc (length m1) = q" unfolding q_def using koch_shape by blast
  obtain m2 where m2: "calculer_points_koch p1_x p1_y p2_x p2_y (int k) = Some ((p1_x, p1_y) # m2 @ [(p2_x, p2_y)])"
    "Suc (length m2) = q" unfolding q_def using koch_shape by blast
  obtain m3 where m3: "calculer_points_koch p2_x p2_y p3_x p3_y (int k) = Some ((p2_x, p2_y) # m3 @ [(p3_x, p3_y)])"
    "Suc (length m3) = q" unfolding q_def using koch_shape by blast
  obtain m4 where m4: "calculer_points_koch p3_x p3_y x2 y2 (int k) = Some ((p3_x, p3_y) # m4 @ [(x2, y2)])"
    "Suc (length m4) = q" unfolding q_def using koch_shape by blast
  define r where "r = butlast ((x1, y1) # m1 @ [(p1_x, p1_y)]) @ butlast ((p1_x, p1_y) # m2 @ [(p2_x, p2_y)]) @
      butlast ((p2_x, p2_y) # m3 @ [(p3_x, p3_y)]) @ (p3_x, p3_y) # m4 @ [(x2, y2)]"
  have whole: "calculer_points_koch x1 y1 x2 y2 d = Some r"
    unfolding koch_step [OF nz] dk
    unfolding dx_def [symmetric] dy_def [symmetric]
    unfolding L_def [symmetric]
    unfolding p1_x_def [symmetric] p1_y_def [symmetric] p3_x_def [symmetric] p3_y_def [symmetric]
    unfolding p2_x_def [symmetric] p2_y_def [symmetric]
    by (simp only: m1 m2 m3 m4 r_def Option.bind.simps)
  have r0: "r = (x1, y1) # m1 @ (p1_x, p1_y) # m2 @ (p2_x, p2_y) # m3 @ (p3_x, p3_y) # m4 @ [(x2, y2)]"
    unfolding r_def by (simp add: butlast_append)
  have n0: "r ! 0 = (x1, y1)" by (simp add: r0)
  have "r = ((x1, y1) # m1) @ (p1_x, p1_y) # (m2 @ (p2_x, p2_y) # m3 @ (p3_x, p3_y) # m4 @ [(x2, y2)])"
    by (simp add: r0)
  moreover have "length ((x1, y1) # m1) = q" using m1(2) by simp
  ultimately have n1: "r ! q = (p1_x, p1_y)" by (metis nth_append_length)
  have "r = ((x1, y1) # m1 @ (p1_x, p1_y) # m2) @ (p2_x, p2_y) # (m3 @ (p3_x, p3_y) # m4 @ [(x2, y2)])"
    by (simp add: r0)
  moreover have "length ((x1, y1) # m1 @ (p1_x, p1_y) # m2) = 2 * q" using m1(2) m2(2) by simp
  ultimately have n2: "r ! (2 * q) = (p2_x, p2_y)" by (metis nth_append_length)
  have "r = ((x1, y1) # m1 @ (p1_x, p1_y) # m2 @ (p2_x, p2_y) # m3) @ (p3_x, p3_y) # (m4 @ [(x2, y2)])"
    by (simp add: r0)
  moreover have "length ((x1, y1) # m1 @ (p1_x, p1_y) # m2 @ (p2_x, p2_y) # m3) = 3 * q"
    using m1(2) m2(2) m3(2) by simp
  ultimately have n3: "r ! (3 * q) = (p3_x, p3_y)" by (metis nth_append_length)
  have "r = ((x1, y1) # m1 @ (p1_x, p1_y) # m2 @ (p2_x, p2_y) # m3 @ (p3_x, p3_y) # m4) @ (x2, y2) # []"
    by (simp add: r0)
  moreover have "length ((x1, y1) # m1 @ (p1_x, p1_y) # m2 @ (p2_x, p2_y) # m3 @ (p3_x, p3_y) # m4) = 4 * q"
    using m1(2) m2(2) m3(2) m4(2) by simp
  ultimately have n4: "r ! (4 * q) = (x2, y2)" by (metis nth_append_length)
  have mid: "(p2_x, p2_y) \<noteq> ((x1 + x2) / 2, (y1 + y2) / 2)"
  proof
    assume "(p2_x, p2_y) = ((x1 + x2) / 2, (y1 + y2) / 2)"
    then have "dy * sqrt 3 = 0" and "dx * sqrt 3 = 0"
      unfolding p2x p2y p1_x_def p1_y_def dx_def dy_def by (simp_all add: field_simps)
    then show False using nondeg by simp
  qed
  have third: "(L / 3)\<^sup>2 = (dx * dx + dy * dy) / 9"
    using Lsq by (simp add: power_divide)
  have t3: "sqrt 3 * sqrt 3 = (3::real)" by simp
  have "p2_x - p1_x = (dx / 2 - dy * sqrt 3 / 2) / 3" and "p2_y - p1_y = (dy / 2 + dx * sqrt 3 / 2) / 3"
    by (simp_all add: p2x p2y)
  then have d12: "(p2_x - p1_x)\<^sup>2 + (p2_y - p1_y)\<^sup>2 = (L / 3)\<^sup>2"
    by (simp only: third bump_side_left [OF t3])
  have "p3_x - p2_x = (dx / 2 + dy * sqrt 3 / 2) / 3" and "p3_y - p2_y = (dy / 2 - dx * sqrt 3 / 2) / 3"
    by (simp_all add: p2x p2y p3_x_def p3_y_def p1_x_def p1_y_def field_simps)
  then have d23: "(p3_x - p2_x)\<^sup>2 + (p3_y - p2_y)\<^sup>2 = (L / 3)\<^sup>2"
    by (simp only: third bump_side_right [OF t3])
  have e13: "p3_x - p1_x = dx / 3" "p3_y - p1_y = dy / 3"
    by (simp_all add: p3_x_def p3_y_def p1_x_def p1_y_def)
  have d13: "(p3_x - p1_x)\<^sup>2 + (p3_y - p1_y)\<^sup>2 = (L / 3)\<^sup>2"
    unfolding e13 third by (simp add: power2_eq_square)
  show ?thesis
    unfolding Let_def fst_conv snd_conv
    unfolding dx_def [symmetric] dy_def [symmetric]
    unfolding L_def [symmetric]
    unfolding p1_x_def [symmetric] p1_y_def [symmetric] p3_x_def [symmetric] p3_y_def [symmetric]
    unfolding p2_x_def [symmetric] p2_y_def [symmetric]
    unfolding dk nat_int q_def [symmetric]
    using m1(1) m2(1) m3(1) m4(1) whole r_def n0 n1 n2 n3 n4 Lpos mid d12 d23 d13
    by blast
qed


theorem koch_control_points_witness:
  "((0::real), (0::real)) \<noteq> (3, 0) \<and> (1::int) \<le> 1 \<and>
   calculer_points_koch 0 0 3 0 1 = Some [(0, 0), (1, 0), (3 / 2, sqrt 3 / 2), (2, 0), (3, 0)]"
proof -
  have sq: "sqrt 9 = 3"
    using real_sqrt_abs [of 3] by simp
  have at: "atan2 0 3 = 0"
    by (simp add: atan2_def)
  have "\<exists>r. calculer_points_koch 0 0 3 0 1 = Some r \<and>
      r = butlast [(0, 0), (1, 0)] @ butlast [(1, 0), (3 / 2, sqrt 3 / 2)] @
          butlast [(3 / 2, sqrt 3 / 2), (2, 0)] @ [(2, 0), (3, 0)]"
    using koch_control_points [of 0 0 3 0 1]
    by (simp add: Let_def sq at cos_60 sin_60 koch_niveau_0)
  then show ?thesis by simp
qed

section \<open>Properties of the drawing\<close>

text \<open>
  The point before the last of a curve at level \<open>k\<close> lies on the segment, at the fraction
  \<open>1 / 3 ^ k\<close> of its length from the end.
\<close>

lemma koch_tail:
  "\<exists>ini. calculer_points_koch x1 y1 x2 y2 (int k) =
      Some (ini @ [(x2 - (x2 - x1) / 3 ^ k, y2 - (y2 - y1) / 3 ^ k), (x2, y2)])"
proof (induction k arbitrary: x1 y1 x2 y2)
  case 0
  have "calculer_points_koch x1 y1 x2 y2 (int 0) =
      Some ([] @ [(x2 - (x2 - x1) / 3 ^ 0, y2 - (y2 - y1) / 3 ^ 0), (x2, y2)])"
    by (simp add: koch_niveau_0)
  then show ?case by blast
next
  case (Suc k)
  define p1_x where "p1_x = x1 + (x2 - x1) / 3"
  define p1_y where "p1_y = y1 + (y2 - y1) / 3"
  define p3_x where "p3_x = x1 + 2 * (x2 - x1) / 3"
  define p3_y where "p3_y = y1 + 2 * (y2 - y1) / 3"
  define p2_x where "p2_x = p1_x +
             sqrt ((x2 - x1) * (x2 - x1) + (y2 - y1) * (y2 - y1)) / 3 *
             cos (atan2 (y2 - y1) (x2 - x1) + pi / 3)"
  define p2_y where "p2_y = p1_y +
             sqrt ((x2 - x1) * (x2 - x1) + (y2 - y1) * (y2 - y1)) / 3 *
             sin (atan2 (y2 - y1) (x2 - x1) + pi / 3)"
  obtain s1 where s1: "calculer_points_koch x1 y1 p1_x p1_y (int k) = Some s1"
    using koch_shape by blast
  obtain s2 where s2: "calculer_points_koch p1_x p1_y p2_x p2_y (int k) = Some s2"
    using koch_shape by blast
  obtain s3 where s3: "calculer_points_koch p2_x p2_y p3_x p3_y (int k) = Some s3"
    using koch_shape by blast
  obtain ini where s4: "calculer_points_koch p3_x p3_y x2 y2 (int k) =
      Some (ini @ [(x2 - (x2 - p3_x) / 3 ^ k, y2 - (y2 - p3_y) / 3 ^ k), (x2, y2)])"
    using Suc.IH by blast
  have e: "(x2 - p3_x) / 3 ^ k = (x2 - x1) / 3 ^ Suc k" "(y2 - p3_y) / 3 ^ k = (y2 - y1) / 3 ^ Suc k"
    by (simp_all add: p3_x_def p3_y_def field_simps)
  have nz: "int (Suc k) \<noteq> 0" and pred: "int (Suc k) - 1 = int k" by simp_all
  have "calculer_points_koch x1 y1 x2 y2 (int (Suc k)) =
      Some ((butlast s1 @ butlast s2 @ butlast s3 @ ini) @
        [(x2 - (x2 - x1) / 3 ^ Suc k, y2 - (y2 - y1) / 3 ^ Suc k), (x2, y2)])"
    unfolding koch_step [OF nz] pred
    unfolding p1_x_def [symmetric] p1_y_def [symmetric] p3_x_def [symmetric] p3_y_def [symmetric]
    unfolding p2_x_def [symmetric] p2_y_def [symmetric]
    by (simp only: s1 s2 s3 s4 e Option.bind.simps append_assoc)
  then show ?case by blast
qed

text \<open>What \<^verbatim>\<open>dessiner_flocon\<close> does to the state, given the outline.\<close>

lemma dessiner_flocon_eq:
  "dessiner_flocon s =
     map_option (\<lambda>pts. s\<lparr>canvas := [points_plats pts], info_zoom := zoom s\<rparr>) (tous_points s)"
proof -
  have "tous_points (s\<lparr>canvas := []\<rparr>) = tous_points s"
    by (simp add: tous_points_def sommets_def centre_x_def centre_y_def hauteur_def taille_def)
  then show ?thesis
    by (cases "tous_points s") (simp_all add: dessiner_flocon_def Let_def)
qed

text \<open>The outline at a level \<open>k \<ge> 0\<close>: every side gives its first vertex and its inner points.\<close>

lemma tous_points_shape:
  assumes "sommets s = ((x1, y1), (x2, y2), (x3, y3))" and "niveau s = int k"
  shows "\<exists>m1 m2 m3 ini.
      calculer_points_koch x1 y1 x2 y2 (niveau s) = Some ((x1, y1) # m1 @ [(x2, y2)]) \<and>
      calculer_points_koch x2 y2 x3 y3 (niveau s) = Some ((x2, y2) # m2 @ [(x3, y3)]) \<and>
      calculer_points_koch x3 y3 x1 y1 (niveau s) = Some ((x3, y3) # m3 @ [(x1, y1)]) \<and>
      tous_points s = Some ((x1, y1) # m1 @ (x2, y2) # m2 @ (x3, y3) # m3) \<and>
      Suc (length m1) = 4 ^ k \<and> Suc (length m2) = 4 ^ k \<and> Suc (length m3) = 4 ^ k \<and>
      (x3, y3) # m3 = ini @ [(x1 - (x1 - x3) / 3 ^ k, y1 - (y1 - y3) / 3 ^ k)]"
proof -
  obtain m1 where m1: "calculer_points_koch x1 y1 x2 y2 (int k) = Some ((x1, y1) # m1 @ [(x2, y2)])"
    "Suc (length m1) = 4 ^ k" using koch_shape by blast
  obtain m2 where m2: "calculer_points_koch x2 y2 x3 y3 (int k) = Some ((x2, y2) # m2 @ [(x3, y3)])"
    "Suc (length m2) = 4 ^ k" using koch_shape by blast
  obtain m3 where m3: "calculer_points_koch x3 y3 x1 y1 (int k) = Some ((x3, y3) # m3 @ [(x1, y1)])"
    "Suc (length m3) = 4 ^ k" using koch_shape by blast
  obtain ini where "calculer_points_koch x3 y3 x1 y1 (int k) =
      Some (ini @ [(x1 - (x1 - x3) / 3 ^ k, y1 - (y1 - y3) / 3 ^ k), (x1, y1)])"
    using koch_tail by blast
  with m3(1) have "((x3, y3) # m3) @ [(x1, y1)] =
      (ini @ [(x1 - (x1 - x3) / 3 ^ k, y1 - (y1 - y3) / 3 ^ k)]) @ [(x1, y1)]"
    by simp
  then have ini: "(x3, y3) # m3 = ini @ [(x1 - (x1 - x3) / 3 ^ k, y1 - (y1 - y3) / 3 ^ k)]"
    by (simp only: append_same_eq)
  have "tous_points s = Some ((x1, y1) # m1 @ (x2, y2) # m2 @ (x3, y3) # m3)"
    by (simp add: tous_points_def assms m1 m2 m3 butlast_append)
  with m1 m2 m3 ini show ?thesis unfolding assms(2) by blast
qed


lemma sommets_eq:
  "sommets s =
     ((centre_x s, centre_y s - hauteur s / 2),
      (centre_x s - taille s / 2, centre_y s + hauteur s / 2),
      (centre_x s + taille s / 2, centre_y s + hauteur s / 2))"
  by (simp add: sommets_def Let_def)

subsection \<open>The outline\<close>

text \<open>
  C2 (as the code has it). At every level \<open>d \<ge> 0\<close> (so at every level from 0 to 7) the
  outline \<^verbatim>\<open>tous_points\<close> is the concatenation of the three curves of the sides, the
  last point of each of the three being dropped, the third one's too. It has \<open>3 * 4 ^ d\<close>
  points and begins with the apex. Its last point is the point before the last of the
  third curve, which is not the apex again unless the zoom is 0. The polygon drawn is
  the flat list of these points.
\<close>

theorem outline_splice:
  assumes "0 \<le> niveau s"
  shows "case sommets s of ((x1, y1), (x2, y2), (x3, y3)) \<Rightarrow>
     (\<exists>c1 c2 c3 pts.
        calculer_points_koch x1 y1 x2 y2 (niveau s) = Some c1 \<and>
        calculer_points_koch x2 y2 x3 y3 (niveau s) = Some c2 \<and>
        calculer_points_koch x3 y3 x1 y1 (niveau s) = Some c3 \<and>
        tous_points s = Some pts \<and>
        pts = butlast c1 @ butlast c2 @ butlast c3 \<and>
        length pts = 3 * 4 ^ nat (niveau s) \<and>
        hd pts = (x1, y1) \<and>
        last pts = (x1 - (x1 - x3) / 3 ^ nat (niveau s), y1 - (y1 - y3) / 3 ^ nat (niveau s)) \<and>
        (zoom s \<noteq> 0 \<longrightarrow> last pts \<noteq> (x1, y1)) \<and>
        dessiner_flocon s = Some (s\<lparr>canvas := [points_plats pts], info_zoom := zoom s\<rparr>))"
proof -
  define k where "k = nat (niveau s)"
  have nk: "niveau s = int k" using assms by (simp add: k_def)
  obtain x1 y1 x2 y2 x3 y3 where som: "sommets s = ((x1, y1), (x2, y2), (x3, y3))"
    by (metis surj_pair)
  obtain m1 m2 m3 ini where
    c1: "calculer_points_koch x1 y1 x2 y2 (niveau s) = Some ((x1, y1) # m1 @ [(x2, y2)])" and
    c2: "calculer_points_koch x2 y2 x3 y3 (niveau s) = Some ((x2, y2) # m2 @ [(x3, y3)])" and
    c3: "calculer_points_koch x3 y3 x1 y1 (niveau s) = Some ((x3, y3) # m3 @ [(x1, y1)])" and
    tp: "tous_points s = Some ((x1, y1) # m1 @ (x2, y2) # m2 @ (x3, y3) # m3)" and
    len: "Suc (length m1) = 4 ^ k" "Suc (length m2) = 4 ^ k" "Suc (length m3) = 4 ^ k" and
    ini: "(x3, y3) # m3 = ini @ [(x1 - (x1 - x3) / 3 ^ k, y1 - (y1 - y3) / 3 ^ k)]"
    using tous_points_shape [OF som nk] by blast
  define pts where "pts = (x1, y1) # m1 @ (x2, y2) # m2 @ (x3, y3) # m3"
  have splice: "pts = butlast ((x1, y1) # m1 @ [(x2, y2)]) @ butlast ((x2, y2) # m2 @ [(x3, y3)]) @
      butlast ((x3, y3) # m3 @ [(x1, y1)])"
    by (simp add: pts_def butlast_append)
  have "length pts = Suc (length m1) + Suc (length m2) + Suc (length m3)"
    by (simp add: pts_def)
  then have length: "length pts = 3 * 4 ^ k" by (simp only: len)
  have hd: "hd pts = (x1, y1)" by (simp add: pts_def)
  have "pts = ((x1, y1) # m1 @ (x2, y2) # m2) @ ((x3, y3) # m3)" by (simp add: pts_def)
  then have "pts = ((x1, y1) # m1 @ (x2, y2) # m2 @ ini) @ [(x1 - (x1 - x3) / 3 ^ k, y1 - (y1 - y3) / 3 ^ k)]"
    by (simp only: ini) simp
  then have last: "last pts = (x1 - (x1 - x3) / 3 ^ k, y1 - (y1 - y3) / 3 ^ k)"
    by (metis last_snoc)
  have x13: "x1 - x3 = - (TAILLE_FLOCON * zoom s / 2)"
    using som by (simp add: sommets_eq taille_def)
  have apart: "zoom s \<noteq> 0 \<longrightarrow> last pts \<noteq> (x1, y1)"
  proof
    assume z: "zoom s \<noteq> 0"
    then have "(x1 - x3) / 3 ^ k \<noteq> 0" by (simp add: x13 TAILLE_FLOCON_def)
    then show "last pts \<noteq> (x1, y1)" by (simp add: last)
  qed
  have draw: "dessiner_flocon s = Some (s\<lparr>canvas := [points_plats pts], info_zoom := zoom s\<rparr>)"
    by (simp add: dessiner_flocon_eq tp pts_def)
  show ?thesis
    unfolding som prod.case k_def [symmetric]
    using c1 c2 c3 tp [folded pts_def] splice length hd last apart draw by blast
qed

theorem outline_splice_witness:
  "(0::int) \<le> niveau (etat_initial\<lparr>niveau := 0\<rparr>) \<and>
   tous_points (etat_initial\<lparr>niveau := 0\<rparr>) =
     Some [(500, 400 - 150 * sqrt 3), (200, 400 + 150 * sqrt 3), (800, 400 + 150 * sqrt 3)]"
  using outline_splice [of "etat_initial\<lparr>niveau := 0\<rparr>"]
  by (simp add: sommets_eq etat_initial_def centre_x_def centre_y_def hauteur_def taille_def
      TAILLE_FLOCON_def koch_niveau_0)

text \<open>
  The claim as the specification words it (\<open>3 * 4 ^ d + 1\<close> points, the last one repeating
  the first) fails at level 0 with the initial view: the outline has 3 points, and its
  last point is the right vertex.
\<close>

theorem outline_splice_counterexample:
  "map_option length (tous_points (etat_initial\<lparr>niveau := 0\<rparr>)) = Some 3 \<and>
   map_option length (tous_points (etat_initial\<lparr>niveau := 0\<rparr>)) \<noteq> Some (3 * 4 ^ 0 + 1) \<and>
   map_option last (tous_points (etat_initial\<lparr>niveau := 0\<rparr>)) \<noteq>
   map_option hd (tous_points (etat_initial\<lparr>niveau := 0\<rparr>))"
  by (simp add: tous_points_def sommets_eq etat_initial_def centre_x_def centre_y_def
      hauteur_def taille_def TAILLE_FLOCON_def koch_niveau_0)


subsection \<open>The triangle\<close>

lemma sqrt3_bounds: "173204 / 100000 < sqrt 3" "sqrt 3 < 173206 / 100000"
proof -
  have "(173204 / 100000)\<^sup>2 < (3::real)" by (simp add: power2_eq_square)
  then show "173204 / 100000 < sqrt 3" by (rule real_less_rsqrt)
  have "(3::real) < (173206 / 100000)\<^sup>2" by (simp add: power2_eq_square)
  then show "sqrt 3 < 173206 / 100000" by (intro real_less_lsqrt) simp_all
qed

text \<open>
  C8. With \<open>S\<close> the constant \<^verbatim>\<open>TAILLE_FLOCON = 600\<close>, \<open>z\<close> the zoom, the centre
  \<open>C = (W/2 + pan_x, H/2 + pan_y)\<close> and \<open>h = S z sqrt 3 / 2\<close>, the vertices computed by
  \<^verbatim>\<open>dessiner_flocon\<close> are the apex \<open>(Cx, Cy - h/2)\<close> and the base vertices
  \<open>(Cx - S z/2, Cy + h/2)\<close> and \<open>(Cx + S z/2, Cy + h/2)\<close>; at a level \<open>d \<ge> 0\<close> they are the
  points of the outline at the indices \<open>0\<close>, \<open>4 ^ d\<close> and \<open>2 * 4 ^ d\<close>. With zoom 1, no pan
  and a canvas of 1000 by 800 they are \<open>(500, 400 - a)\<close>, \<open>(200, l)\<close> and \<open>(800, l)\<close> with
  \<open>a\<close> within 0.005 of 259.81 and \<open>l\<close> within 0.005 of 659.81.
\<close>

theorem triangle_vertices:
  "sommets s =
     ((canvas_width s / 2 + pan_x s,
       canvas_height s / 2 + pan_y s - (TAILLE_FLOCON * zoom s * sqrt 3 / 2) / 2),
      (canvas_width s / 2 + pan_x s - TAILLE_FLOCON * zoom s / 2,
       canvas_height s / 2 + pan_y s + (TAILLE_FLOCON * zoom s * sqrt 3 / 2) / 2),
      (canvas_width s / 2 + pan_x s + TAILLE_FLOCON * zoom s / 2,
       canvas_height s / 2 + pan_y s + (TAILLE_FLOCON * zoom s * sqrt 3 / 2) / 2)) \<and>
   TAILLE_FLOCON = 600 \<and>
   (0 \<le> niveau s \<longrightarrow>
     (\<exists>pts. tous_points s = Some pts \<and>
        pts ! 0 = fst (sommets s) \<and>
        pts ! (4 ^ nat (niveau s)) = fst (snd (sommets s)) \<and>
        pts ! (2 * 4 ^ nat (niveau s)) = snd (snd (sommets s)))) \<and>
   (zoom s = 1 \<and> pan_x s = 0 \<and> pan_y s = 0 \<and> canvas_width s = 1000 \<and> canvas_height s = 800 \<longrightarrow>
     (\<exists>a l. sommets s = ((500, 400 - a), (200, l), (800, l)) \<and>
        \<bar>a - 25981 / 100\<bar> < 1 / 200 \<and> \<bar>l - 65981 / 100\<bar> < 1 / 200))"
proof -
  have formulas: "sommets s =
     ((canvas_width s / 2 + pan_x s,
       canvas_height s / 2 + pan_y s - (TAILLE_FLOCON * zoom s * sqrt 3 / 2) / 2),
      (canvas_width s / 2 + pan_x s - TAILLE_FLOCON * zoom s / 2,
       canvas_height s / 2 + pan_y s + (TAILLE_FLOCON * zoom s * sqrt 3 / 2) / 2),
      (canvas_width s / 2 + pan_x s + TAILLE_FLOCON * zoom s / 2,
       canvas_height s / 2 + pan_y s + (TAILLE_FLOCON * zoom s * sqrt 3 / 2) / 2))"
    by (simp add: sommets_eq centre_x_def centre_y_def hauteur_def taille_def)
  have drawn: "\<exists>pts. tous_points s = Some pts \<and>
        pts ! 0 = fst (sommets s) \<and>
        pts ! (4 ^ nat (niveau s)) = fst (snd (sommets s)) \<and>
        pts ! (2 * 4 ^ nat (niveau s)) = snd (snd (sommets s))" if "0 \<le> niveau s"
  proof -
    define k where "k = nat (niveau s)"
    have nk: "niveau s = int k" using that by (simp add: k_def)
    obtain x1 y1 x2 y2 x3 y3 where som: "sommets s = ((x1, y1), (x2, y2), (x3, y3))"
      by (metis surj_pair)
    obtain m1 m2 m3 where
      tp: "tous_points s = Some ((x1, y1) # m1 @ (x2, y2) # m2 @ (x3, y3) # m3)" and
      len: "Suc (length m1) = 4 ^ k" "Suc (length m2) = 4 ^ k"
      using tous_points_shape [OF som nk] by blast
    define pts where "pts = (x1, y1) # m1 @ (x2, y2) # m2 @ (x3, y3) # m3"
    have n0: "pts ! 0 = (x1, y1)" by (simp add: pts_def)
    have "pts = ((x1, y1) # m1) @ (x2, y2) # (m2 @ (x3, y3) # m3)" by (simp add: pts_def)
    moreover have "length ((x1, y1) # m1) = 4 ^ k" using len by simp
    ultimately have n1: "pts ! (4 ^ k) = (x2, y2)" by (metis nth_append_length)
    have "pts = ((x1, y1) # m1 @ (x2, y2) # m2) @ (x3, y3) # m3" by (simp add: pts_def)
    moreover have "length ((x1, y1) # m1 @ (x2, y2) # m2) = 2 * 4 ^ k" using len by simp
    ultimately have n2: "pts ! (2 * 4 ^ k) = (x3, y3)" by (metis nth_append_length)
    show ?thesis
      unfolding k_def [symmetric] som fst_conv snd_conv
      using tp [folded pts_def] n0 n1 n2 by blast
  qed
  have numbers: "\<exists>a l. sommets s = ((500, 400 - a), (200, l), (800, l)) \<and>
        \<bar>a - 25981 / 100\<bar> < 1 / 200 \<and> \<bar>l - 65981 / 100\<bar> < 1 / 200"
    if "zoom s = 1 \<and> pan_x s = 0 \<and> pan_y s = 0 \<and> canvas_width s = 1000 \<and> canvas_height s = 800"
  proof -
    have "sommets s = ((500, 400 - 150 * sqrt 3), (200, 400 + 150 * sqrt 3), (800, 400 + 150 * sqrt 3))"
      using that by (simp add: formulas TAILLE_FLOCON_def)
    moreover have "\<bar>150 * sqrt 3 - 25981 / 100\<bar> < 1 / 200"
      using sqrt3_bounds by simp
    moreover have "\<bar>400 + 150 * sqrt 3 - 65981 / 100\<bar> < 1 / 200"
      using sqrt3_bounds by simp
    ultimately show ?thesis by blast
  qed
  show ?thesis
    using formulas drawn numbers by (simp add: TAILLE_FLOCON_def)
qed


theorem triangle_vertices_witness:
  "0 \<le> niveau etat_initial \<and> zoom etat_initial = 1 \<and> pan_x etat_initial = 0 \<and>
   pan_y etat_initial = 0 \<and> canvas_width etat_initial = 1000 \<and>
   canvas_height etat_initial = 800 \<and>
   sommets etat_initial =
     ((500, 400 - 150 * sqrt 3), (200, 400 + 150 * sqrt 3), (800, 400 + 150 * sqrt 3)) \<and>
   (\<exists>pts. tous_points etat_initial = Some pts \<and>
      pts ! 0 = (500, 400 - 150 * sqrt 3) \<and>
      pts ! 256 = (200, 400 + 150 * sqrt 3) \<and>
      pts ! 512 = (800, 400 + 150 * sqrt 3)) \<and>
   (\<exists>a l. sommets etat_initial = ((500, 400 - a), (200, l), (800, l)) \<and>
      \<bar>a - 25981 / 100\<bar> < 1 / 200 \<and> \<bar>l - 65981 / 100\<bar> < 1 / 200)"
proof -
  have v: "zoom etat_initial = 1" "pan_x etat_initial = 0" "pan_y etat_initial = 0"
    "canvas_width etat_initial = 1000" "canvas_height etat_initial = 800"
    "niveau etat_initial = 4"
    by (simp_all add: etat_initial_def NIVEAU_RECURSION_def)
  have p: "(4::nat) ^ nat 4 = 256" "2 * (4::nat) ^ nat 4 = 512" by simp_all
  note T = triangle_vertices [of etat_initial]
  have som: "sommets etat_initial =
      ((500, 400 - 150 * sqrt 3), (200, 400 + 150 * sqrt 3), (800, 400 + 150 * sqrt 3))"
    using T [THEN conjunct1] by (simp add: v TAILLE_FLOCON_def)
  have "\<exists>pts. tous_points etat_initial = Some pts \<and>
        pts ! 0 = fst (sommets etat_initial) \<and>
        pts ! (4 ^ nat (niveau etat_initial)) = fst (snd (sommets etat_initial)) \<and>
        pts ! (2 * 4 ^ nat (niveau etat_initial)) = snd (snd (sommets etat_initial))"
    using T [THEN conjunct2, THEN conjunct2, THEN conjunct1] by (simp add: v)
  then have drawn: "\<exists>pts. tous_points etat_initial = Some pts \<and>
      pts ! 0 = (500, 400 - 150 * sqrt 3) \<and>
      pts ! 256 = (200, 400 + 150 * sqrt 3) \<and>
      pts ! 512 = (800, 400 + 150 * sqrt 3)"
    unfolding som v p(1) fst_conv snd_conv by simp
  have numbers: "\<exists>a l. sommets etat_initial = ((500, 400 - a), (200, l), (800, l)) \<and>
      \<bar>a - 25981 / 100\<bar> < 1 / 200 \<and> \<bar>l - 65981 / 100\<bar> < 1 / 200"
    using T [THEN conjunct2, THEN conjunct2, THEN conjunct2] v by blast
  show ?thesis
    using v(1-5) som drawn numbers by (simp only: v(6)) simp
qed

text \<open>
  C9. At level 0 the outline is exactly the three vertices of the triangle, in the order
  apex, left base vertex, right base vertex; the polygon drawn has these three points and
  no fourth one. When the zoom is positive the three points are distinct, the second is
  to the left of the apex, the third to its right, and the apex is above the base (its
  \<open>y\<close> is smaller).
\<close>

theorem outline_niveau_0:
  assumes "niveau s = 0"
  shows "tous_points s =
      Some [(centre_x s, centre_y s - hauteur s / 2),
            (centre_x s - taille s / 2, centre_y s + hauteur s / 2),
            (centre_x s + taille s / 2, centre_y s + hauteur s / 2)] \<and>
    (\<exists>pts. tous_points s = Some pts \<and> length pts = 3 \<and>
       dessiner_flocon s = Some (s\<lparr>canvas := [points_plats pts], info_zoom := zoom s\<rparr>)) \<and>
    (0 < zoom s \<longrightarrow>
       distinct [(centre_x s, centre_y s - hauteur s / 2),
                 (centre_x s - taille s / 2, centre_y s + hauteur s / 2),
                 (centre_x s + taille s / 2, centre_y s + hauteur s / 2)] \<and>
       centre_x s - taille s / 2 < centre_x s \<and> centre_x s < centre_x s + taille s / 2 \<and>
       centre_y s - hauteur s / 2 < centre_y s + hauteur s / 2)"
proof -
  have tp: "tous_points s =
      Some [(centre_x s, centre_y s - hauteur s / 2),
            (centre_x s - taille s / 2, centre_y s + hauteur s / 2),
            (centre_x s + taille s / 2, centre_y s + hauteur s / 2)]"
    by (simp add: tous_points_def sommets_eq assms koch_niveau_0)
  have draw: "\<exists>pts. tous_points s = Some pts \<and> length pts = 3 \<and>
       dessiner_flocon s = Some (s\<lparr>canvas := [points_plats pts], info_zoom := zoom s\<rparr>)"
    by (simp add: tp dessiner_flocon_eq)
  have pos: "0 < taille s \<and> 0 < hauteur s" if "0 < zoom s"
    using that by (simp add: taille_def hauteur_def TAILLE_FLOCON_def)
  show ?thesis
    using tp draw pos by auto
qed

theorem outline_niveau_0_witness:
  "niveau (etat_initial\<lparr>niveau := 0\<rparr>) = 0 \<and> 0 < zoom (etat_initial\<lparr>niveau := 0\<rparr>) \<and>
   dessiner_flocon (etat_initial\<lparr>niveau := 0\<rparr>) =
     Some (etat_initial\<lparr>niveau := 0,
       canvas := [[500, 400 - 150 * sqrt 3, 200, 400 + 150 * sqrt 3, 800, 400 + 150 * sqrt 3]]\<rparr>) \<and>
   distinct [(500, 400 - 150 * sqrt 3), (200, 400 + 150 * sqrt 3), (800::real, 400 + 150 * sqrt 3)]"
proof -
  define s0 where "s0 = etat_initial\<lparr>niveau := 0\<rparr>"
  have n0: "niveau s0 = 0" and z: "0 < zoom s0"
    by (simp_all add: s0_def etat_initial_def)
  note T = outline_niveau_0 [OF n0]
  have geo: "centre_x s0 = 500" "centre_y s0 = 400" "taille s0 / 2 = 300"
    "hauteur s0 / 2 = 150 * sqrt 3"
    by (simp_all add: s0_def etat_initial_def centre_x_def centre_y_def hauteur_def taille_def
        TAILLE_FLOCON_def)
  have tp: "tous_points s0 =
      Some [(500, 400 - 150 * sqrt 3), (200, 400 + 150 * sqrt 3), (800, 400 + 150 * sqrt 3)]"
    using T [THEN conjunct1] unfolding geo by simp
  have "dessiner_flocon s0 = Some (s0\<lparr>canvas :=
      [points_plats [(500, 400 - 150 * sqrt 3), (200, 400 + 150 * sqrt 3), (800, 400 + 150 * sqrt 3)]],
      info_zoom := zoom s0\<rparr>)"
    using T [THEN conjunct2, THEN conjunct1] unfolding tp by auto
  then have draw: "dessiner_flocon s0 = Some (etat_initial\<lparr>niveau := 0,
       canvas := [[500, 400 - 150 * sqrt 3, 200, 400 + 150 * sqrt 3, 800, 400 + 150 * sqrt 3]]\<rparr>)"
    by (simp add: points_plats_def s0_def etat_initial_def)
  have "distinct [(500, 400 - 150 * sqrt 3), (200, 400 + 150 * sqrt 3), (800::real, 400 + 150 * sqrt 3)]"
    using T [THEN conjunct2, THEN conjunct2] z unfolding geo by simp
  with n0 z draw show ?thesis unfolding s0_def by simp
qed

section \<open>Properties of the handlers\<close>

text \<open>
  The drawing returns at every level that is not negative, and changes only the canvas
  and the zoom label.
\<close>

lemma dessiner_flocon_returns:
  assumes "0 \<le> niveau s"
  shows "\<exists>poly. dessiner_flocon s = Some (s\<lparr>canvas := [poly], info_zoom := zoom s\<rparr>)"
proof -
  obtain x1 y1 x2 y2 x3 y3 where som: "sommets s = ((x1, y1), (x2, y2), (x3, y3))"
    by (metis surj_pair)
  have "niveau s = int (nat (niveau s))" using assms by simp
  from tous_points_shape [OF som this] obtain pts where "tous_points s = Some pts" by blast
  then have "dessiner_flocon s = Some (s\<lparr>canvas := [points_plats pts], info_zoom := zoom s\<rparr>)"
    by (simp add: dessiner_flocon_eq)
  then show ?thesis by blast
qed

lemma dessiner_flocon_frame:
  assumes "dessiner_flocon s = Some s'"
  shows "\<exists>poly. s' = s\<lparr>canvas := [poly], info_zoom := zoom s\<rparr>"
  using assms by (auto simp: dessiner_flocon_eq)

text \<open>The handlers, as one assignment followed by the drawing.\<close>

lemma zoomer_windows_eq:
  "zoomer_windows e s =
     dessiner_flocon (s\<lparr>zoom := max (1 / 10) (min 50 (zoom s * (1 + ev_delta e / 1200)))\<rparr>)"
  by (simp add: zoomer_windows_def Let_def)

lemma zoomer_macos_eq:
  "zoomer_macos e s =
     dessiner_flocon (s\<lparr>zoom := max (1 / 10) (min 50 (zoom s * (1 + ev_delta e / 120)))\<rparr>)"
  by (simp add: zoomer_macos_def Let_def)

lemma zoomer_in_linux_eq:
  "zoomer_in_linux e s = dessiner_flocon (s\<lparr>zoom := min 50 (zoom s * (11 / 10))\<rparr>)"
  by (simp add: zoomer_in_linux_def Let_def)

lemma zoomer_out_linux_eq:
  "zoomer_out_linux e s = dessiner_flocon (s\<lparr>zoom := max (1 / 10) (zoom s / (11 / 10))\<rparr>)"
  by (simp add: zoomer_out_linux_def Let_def)

lemma zoomer_clavier_eq:
  "zoomer_clavier b s =
     dessiner_flocon (s\<lparr>zoom := max (1 / 10) (min 50
       (if b then zoom s * (12 / 10) else zoom s / (12 / 10)))\<rparr>)"
  by (simp add: zoomer_clavier_def Let_def)

lemma changer_niveau_eq:
  "changer_niveau d s =
     dessiner_flocon (s\<lparr>niveau := max 0 (min 7 (niveau s + d)),
       info_niveau := max 0 (min 7 (niveau s + d))\<rparr>)"
  by (simp add: changer_niveau_def Let_def)

lemma deplacer_eq:
  "deplacer e s =
     (if dragging s
      then dessiner_flocon (s\<lparr>pan_x := pan_x s + (ev_x e - last_x s),
             pan_y := pan_y s + (ev_y e - last_y s), last_x := ev_x e, last_y := ev_y e\<rparr>)
      else Some s)"
  by (simp add: deplacer_def Let_def)

text \<open>One handler call keeps the zoom between 0.1 and 50.\<close>

lemma executer_zoom:
  assumes "1 / 10 \<le> zoom s" and "zoom s \<le> 50" and "executer a s = Some s'"
  shows "1 / 10 \<le> zoom s' \<and> zoom s' \<le> 50"
proof (cases a)
  case (Commencer_deplacement e)
  with assms show ?thesis by (auto simp: commencer_deplacement_def)
next
  case (Deplacer e)
  with assms show ?thesis
    by (auto simp: deplacer_eq split: if_splits dest!: dessiner_flocon_frame)
next
  case (Arreter_deplacement e)
  with assms show ?thesis by (auto simp: arreter_deplacement_def)
next
  case (Zoomer_windows e)
  with assms show ?thesis
    by (auto simp: zoomer_windows_eq dest!: dessiner_flocon_frame)
next
  case (Zoomer_macos e)
  with assms show ?thesis
    by (auto simp: zoomer_macos_eq dest!: dessiner_flocon_frame)
next
  case (Zoomer_in_linux e)
  with assms show ?thesis
    by (auto simp: zoomer_in_linux_eq dest!: dessiner_flocon_frame)
next
  case (Zoomer_out_linux e)
  with assms show ?thesis
    by (auto simp: zoomer_out_linux_eq dest!: dessiner_flocon_frame)
next
  case (Zoomer_clavier b)
  with assms show ?thesis
    by (auto simp: zoomer_clavier_eq dest!: dessiner_flocon_frame)
next
  case (Changer_niveau d)
  with assms show ?thesis
    by (auto simp: changer_niveau_eq dest!: dessiner_flocon_frame)
qed

text \<open>At a level that is not negative every handler call returns, at such a level again.\<close>

lemma executer_returns:
  assumes "0 \<le> niveau s"
  shows "\<exists>s'. executer a s = Some s' \<and> 0 \<le> niveau s'"
proof -
  have draw: "\<exists>s'. dessiner_flocon t = Some s' \<and> 0 \<le> niveau s'" if "0 \<le> niveau t" for t
    using dessiner_flocon_returns [OF that] that by auto
  show ?thesis
  proof (cases a)
    case (Commencer_deplacement e)
    with assms show ?thesis by (simp add: commencer_deplacement_def)
  next
    case (Deplacer e)
    with assms show ?thesis by (simp add: deplacer_eq draw)
  next
    case (Arreter_deplacement e)
    with assms show ?thesis by (simp add: arreter_deplacement_def)
  next
    case (Zoomer_windows e)
    with assms show ?thesis by (simp add: zoomer_windows_eq draw)
  next
    case (Zoomer_macos e)
    with assms show ?thesis by (simp add: zoomer_macos_eq draw)
  next
    case (Zoomer_in_linux e)
    with assms show ?thesis by (simp add: zoomer_in_linux_eq draw)
  next
    case (Zoomer_out_linux e)
    with assms show ?thesis by (simp add: zoomer_out_linux_eq draw)
  next
    case (Zoomer_clavier b)
    with assms show ?thesis by (simp add: zoomer_clavier_eq draw)
  next
    case (Changer_niveau d)
    show ?thesis unfolding Changer_niveau executer.simps changer_niveau_eq
      by (rule draw) simp
  qed
qed

lemma mainloop_zoom:
  assumes "1 / 10 \<le> zoom s" and "zoom s \<le> 50" and "mainloop appels s = Some s'"
  shows "1 / 10 \<le> zoom s' \<and> zoom s' \<le> 50"
  using assms
proof (induction appels arbitrary: s)
  case Nil
  then show ?case by simp
next
  case (Cons a appels)
  from Cons.prems(3) obtain t where t: "executer a s = Some t" "mainloop appels t = Some s'"
    by (auto split: option.splits)
  from executer_zoom [OF Cons.prems(1,2) t(1)] have "1 / 10 \<le> zoom t" "zoom t \<le> 50" by simp_all
  then show ?case using t(2) by (rule Cons.IH)
qed

lemma mainloop_returns:
  assumes "0 \<le> niveau s"
  shows "\<exists>s'. mainloop appels s = Some s' \<and> 0 \<le> niveau s'"
  using assms
proof (induction appels arbitrary: s)
  case Nil
  then show ?case by simp
next
  case (Cons a appels)
  from executer_returns [OF Cons.prems] obtain t where t: "executer a s = Some t" "0 \<le> niveau t"
    by blast
  from Cons.IH [OF t(2)] show ?case by (simp add: t(1))
qed

subsection \<open>The zoom\<close>

text \<open>
  C6. From a zoom between 0.1 and 50, every run of handler calls (the wheel handlers with
  any \<^verbatim>\<open>delta\<close>, the two Linux handlers, the keyboard handler, and the other handlers
  too) that returns leaves the zoom between 0.1 and 50, and at a level that is not
  negative every run returns. A wheel event whose \<^verbatim>\<open>delta\<close> makes the factor \<open>f\<close> sets
  the zoom to \<open>max 0.1 (min 50 (zoom * f))\<close>; from zoom 1 the factor 1000 gives 50 and the
  factor 0.0001 gives 0.1.
\<close>

theorem zoom_stays_clamped:
  assumes "1 / 10 \<le> zoom s" and "zoom s \<le> 50"
  shows "(\<forall>s'. mainloop appels s = Some s' \<longrightarrow> 1 / 10 \<le> zoom s' \<and> zoom s' \<le> 50) \<and>
    (0 \<le> niveau s \<longrightarrow>
       (\<exists>s'. mainloop appels s = Some s' \<and> 1 / 10 \<le> zoom s' \<and> zoom s' \<le> 50) \<and>
       (\<exists>s'. zoomer_windows (e\<lparr>ev_delta := (f - 1) * 1200\<rparr>) s = Some s' \<and>
          zoom s' = max (1 / 10) (min 50 (zoom s * f))) \<and>
       (\<exists>s'. zoomer_macos (e\<lparr>ev_delta := (f - 1) * 120\<rparr>) s = Some s' \<and>
          zoom s' = max (1 / 10) (min 50 (zoom s * f))) \<and>
       (\<exists>s'. zoomer_windows (e\<lparr>ev_delta := (1000 - 1) * 1200\<rparr>) (s\<lparr>zoom := 1\<rparr>) = Some s' \<and>
          zoom s' = 50) \<and>
       (\<exists>s'. zoomer_windows (e\<lparr>ev_delta := (1 / 10000 - 1) * 1200\<rparr>) (s\<lparr>zoom := 1\<rparr>) = Some s' \<and>
          zoom s' = 1 / 10))"
proof -
  have partial: "\<forall>s'. mainloop appels s = Some s' \<longrightarrow> 1 / 10 \<le> zoom s' \<and> zoom s' \<le> 50"
    using mainloop_zoom [OF assms] by blast
  have draw: "\<exists>s'. dessiner_flocon (t\<lparr>zoom := z\<rparr>) = Some s' \<and> zoom s' = z"
    if "0 \<le> niveau t" for t z
  proof -
    have "0 \<le> niveau (t\<lparr>zoom := z\<rparr>)" using that by simp
    from dessiner_flocon_returns [OF this] show ?thesis by auto
  qed
  have total: "\<exists>s'. mainloop appels s = Some s' \<and> 1 / 10 \<le> zoom s' \<and> zoom s' \<le> 50"
    if "0 \<le> niveau s"
    using mainloop_returns [OF that, of appels] partial by blast
  have win: "\<exists>s'. zoomer_windows (e\<lparr>ev_delta := (g - 1) * 1200\<rparr>) t = Some s' \<and>
      zoom s' = max (1 / 10) (min 50 (zoom t * g))" if "0 \<le> niveau t" for t g
  proof -
    have "1 + (g - 1) * 1200 / 1200 = g" by (simp add: field_simps)
    then show ?thesis
      using draw [OF that, of "max (1 / 10) (min 50 (zoom t * g))"]
      by (simp add: zoomer_windows_eq)
  qed
  have mac: "\<exists>s'. zoomer_macos (e\<lparr>ev_delta := (f - 1) * 120\<rparr>) s = Some s' \<and>
      zoom s' = max (1 / 10) (min 50 (zoom s * f))" if "0 \<le> niveau s"
  proof -
    have "1 + (f - 1) * 120 / 120 = f" by (simp add: field_simps)
    then show ?thesis
      using draw [OF that, of "max (1 / 10) (min 50 (zoom s * f))"]
      by (simp add: zoomer_macos_eq)
  qed
  have big: "\<exists>s'. zoomer_windows (e\<lparr>ev_delta := (1000 - 1) * 1200\<rparr>) (s\<lparr>zoom := 1\<rparr>) = Some s' \<and>
      zoom s' = 50" if "0 \<le> niveau s"
    using win [of "s\<lparr>zoom := 1\<rparr>" 1000] that by simp
  have small: "\<exists>s'. zoomer_windows (e\<lparr>ev_delta := (1 / 10000 - 1) * 1200\<rparr>) (s\<lparr>zoom := 1\<rparr>) = Some s' \<and>
      zoom s' = 1 / 10" if "0 \<le> niveau s"
    using win [of "s\<lparr>zoom := 1\<rparr>" "1 / 10000"] that by simp
  show ?thesis
    using partial total win [of s f] mac big small by blast
qed

theorem zoom_stays_clamped_witness:
  "1 / 10 \<le> zoom etat_initial \<and> zoom etat_initial \<le> 50 \<and> 0 \<le> niveau etat_initial \<and>
   (\<exists>s'. mainloop [Zoomer_clavier True, Zoomer_in_linux \<lparr>ev_x = 0, ev_y = 0, ev_delta = 0\<rparr>,
            Zoomer_windows \<lparr>ev_x = 0, ev_y = 0, ev_delta = 120\<rparr>, Zoomer_clavier False]
          etat_initial = Some s' \<and> 1 / 10 \<le> zoom s' \<and> zoom s' \<le> 50) \<and>
   (\<exists>s'. zoomer_windows \<lparr>ev_x = 0, ev_y = 0, ev_delta = 1198800\<rparr> etat_initial = Some s' \<and>
      zoom s' = 50) \<and>
   (\<exists>s'. zoomer_windows \<lparr>ev_x = 0, ev_y = 0, ev_delta = - (119988 / 100)\<rparr> etat_initial = Some s' \<and>
      zoom s' = 1 / 10)"
proof -
  have z: "1 / 10 \<le> zoom etat_initial" "zoom etat_initial \<le> 50"
    and n: "0 \<le> niveau etat_initial"
    and same: "etat_initial\<lparr>zoom := 1\<rparr> = etat_initial"
    by (simp_all add: etat_initial_def NIVEAU_RECURSION_def)
  note T = zoom_stays_clamped [where s = etat_initial
      and appels = "[Zoomer_clavier True, Zoomer_in_linux \<lparr>ev_x = 0, ev_y = 0, ev_delta = 0\<rparr>,
           Zoomer_windows \<lparr>ev_x = 0, ev_y = 0, ev_delta = 120\<rparr>, Zoomer_clavier False]"
      and e = "\<lparr>ev_x = 0, ev_y = 0, ev_delta = 0\<rparr>" and f = 1,
      OF z, THEN conjunct2, rule_format, OF n]
  have run: "\<exists>s'. mainloop [Zoomer_clavier True, Zoomer_in_linux \<lparr>ev_x = 0, ev_y = 0, ev_delta = 0\<rparr>,
            Zoomer_windows \<lparr>ev_x = 0, ev_y = 0, ev_delta = 120\<rparr>, Zoomer_clavier False]
          etat_initial = Some s' \<and> 1 / 10 \<le> zoom s' \<and> zoom s' \<le> 50"
    using T by blast
  have big: "\<exists>s'. zoomer_windows \<lparr>ev_x = 0, ev_y = 0, ev_delta = 1198800\<rparr> etat_initial = Some s' \<and>
      zoom s' = 50"
    using T [THEN conjunct2, THEN conjunct2, THEN conjunct2, THEN conjunct1]
    by (simp add: same)
  have small: "\<exists>s'. zoomer_windows \<lparr>ev_x = 0, ev_y = 0, ev_delta = - (119988 / 100)\<rparr> etat_initial = Some s' \<and>
      zoom s' = 1 / 10"
    using T [THEN conjunct2, THEN conjunct2, THEN conjunct2, THEN conjunct2]
    by (simp add: same)
  from z n run big small show ?thesis by blast
qed

subsection \<open>The level\<close>

text \<open>
  C7. For every level and every integer \<open>delta\<close>, \<^verbatim>\<open>changer_niveau(delta)\<close> returns and
  sets the level to \<open>max 0 (min 7 (niveau + delta))\<close>, a value between 0 and 7; from level 7
  the delta \<open>+1\<close> leaves 7, and from level 0 the delta \<open>-1\<close> leaves 0.
\<close>

theorem changer_niveau_clamp:
  "(\<exists>s'. changer_niveau delta s = Some s' \<and>
      niveau s' = max 0 (min 7 (niveau s + delta)) \<and> 0 \<le> niveau s' \<and> niveau s' \<le> 7) \<and>
   (\<exists>s'. changer_niveau 1 (s\<lparr>niveau := 7\<rparr>) = Some s' \<and> niveau s' = 7) \<and>
   (\<exists>s'. changer_niveau (- 1) (s\<lparr>niveau := 0\<rparr>) = Some s' \<and> niveau s' = 0)"
proof -
  have gen: "\<exists>s'. changer_niveau d t = Some s' \<and> niveau s' = max 0 (min 7 (niveau t + d))" for d t
  proof -
    have "0 \<le> niveau (t\<lparr>niveau := max 0 (min 7 (niveau t + d)),
        info_niveau := max 0 (min 7 (niveau t + d))\<rparr>)"
      by simp
    from dessiner_flocon_returns [OF this] show ?thesis
      unfolding changer_niveau_eq by auto
  qed
  from gen [of delta s] have "\<exists>s'. changer_niveau delta s = Some s' \<and>
      niveau s' = max 0 (min 7 (niveau s + delta)) \<and> 0 \<le> niveau s' \<and> niveau s' \<le> 7"
    by auto
  moreover from gen [of 1 "s\<lparr>niveau := 7\<rparr>"]
  have "\<exists>s'. changer_niveau 1 (s\<lparr>niveau := 7\<rparr>) = Some s' \<and> niveau s' = 7" by simp
  moreover from gen [of "- 1" "s\<lparr>niveau := 0\<rparr>"]
  have "\<exists>s'. changer_niveau (- 1) (s\<lparr>niveau := 0\<rparr>) = Some s' \<and> niveau s' = 0" by simp
  ultimately show ?thesis by blast
qed

subsection \<open>What each handler leaves unchanged\<close>

text \<open>
  C10. At a level that is not negative each handler returns, and: \<^verbatim>\<open>deplacer\<close> leaves the
  zoom and the level unchanged, and changes nothing but \<open>pan_x\<close>, \<open>pan_y\<close>, \<open>last_x\<close>,
  \<open>last_y\<close> and what the drawing refreshes (the canvas and the zoom label); each of the
  five zoom handlers leaves \<open>pan_x\<close>, \<open>pan_y\<close> and the level unchanged, and changes
  nothing but the zoom and what the drawing refreshes; \<^verbatim>\<open>changer_niveau\<close> leaves the zoom
  and the pan unchanged, and changes nothing but the level, its label and what the drawing
  refreshes.
\<close>

theorem handlers_frame:
  assumes "0 \<le> niveau s"
  shows
    "(\<exists>s'. deplacer e s = Some s' \<and> zoom s' = zoom s \<and> niveau s' = niveau s \<and>
        s' = s\<lparr>pan_x := pan_x s', pan_y := pan_y s', last_x := last_x s', last_y := last_y s',
               canvas := canvas s', info_zoom := info_zoom s'\<rparr>) \<and>
     (\<exists>s'. zoomer_windows e s = Some s' \<and> pan_x s' = pan_x s \<and> pan_y s' = pan_y s \<and>
        niveau s' = niveau s \<and>
        s' = s\<lparr>zoom := zoom s', canvas := canvas s', info_zoom := info_zoom s'\<rparr>) \<and>
     (\<exists>s'. zoomer_macos e s = Some s' \<and> pan_x s' = pan_x s \<and> pan_y s' = pan_y s \<and>
        niveau s' = niveau s \<and>
        s' = s\<lparr>zoom := zoom s', canvas := canvas s', info_zoom := info_zoom s'\<rparr>) \<and>
     (\<exists>s'. zoomer_in_linux e s = Some s' \<and> pan_x s' = pan_x s \<and> pan_y s' = pan_y s \<and>
        niveau s' = niveau s \<and>
        s' = s\<lparr>zoom := zoom s', canvas := canvas s', info_zoom := info_zoom s'\<rparr>) \<and>
     (\<exists>s'. zoomer_out_linux e s = Some s' \<and> pan_x s' = pan_x s \<and> pan_y s' = pan_y s \<and>
        niveau s' = niveau s \<and>
        s' = s\<lparr>zoom := zoom s', canvas := canvas s', info_zoom := info_zoom s'\<rparr>) \<and>
     (\<exists>s'. zoomer_clavier b s = Some s' \<and> pan_x s' = pan_x s \<and> pan_y s' = pan_y s \<and>
        niveau s' = niveau s \<and>
        s' = s\<lparr>zoom := zoom s', canvas := canvas s', info_zoom := info_zoom s'\<rparr>) \<and>
     (\<exists>s'. changer_niveau d s = Some s' \<and> zoom s' = zoom s \<and> pan_x s' = pan_x s \<and>
        pan_y s' = pan_y s \<and>
        s' = s\<lparr>niveau := niveau s', info_niveau := info_niveau s', canvas := canvas s',
               info_zoom := info_zoom s'\<rparr>)"
proof -
  have draw: "\<exists>poly. dessiner_flocon t = Some (t\<lparr>canvas := [poly], info_zoom := zoom t\<rparr>)"
    if "0 \<le> niveau t" for t
    using dessiner_flocon_returns [OF that] .
  have dep: "\<exists>s'. deplacer e s = Some s' \<and> zoom s' = zoom s \<and> niveau s' = niveau s \<and>
        s' = s\<lparr>pan_x := pan_x s', pan_y := pan_y s', last_x := last_x s', last_y := last_y s',
               canvas := canvas s', info_zoom := info_zoom s'\<rparr>"
  proof (cases "dragging s")
    case True
    have "0 \<le> niveau (s\<lparr>pan_x := pan_x s + (ev_x e - last_x s),
             pan_y := pan_y s + (ev_y e - last_y s), last_x := ev_x e, last_y := ev_y e\<rparr>)"
      using assms by simp
    from draw [OF this] obtain poly where
      "deplacer e s = Some (s\<lparr>pan_x := pan_x s + (ev_x e - last_x s),
             pan_y := pan_y s + (ev_y e - last_y s), last_x := ev_x e, last_y := ev_y e,
             canvas := [poly], info_zoom := zoom s\<rparr>)"
      using True by (auto simp: deplacer_eq)
    then show ?thesis by simp
  next
    case False
    then show ?thesis by (simp add: deplacer_eq)
  qed
  have zm: "\<exists>s'. dessiner_flocon (s\<lparr>zoom := z\<rparr>) = Some s' \<and> pan_x s' = pan_x s \<and>
        pan_y s' = pan_y s \<and> niveau s' = niveau s \<and>
        s' = s\<lparr>zoom := zoom s', canvas := canvas s', info_zoom := info_zoom s'\<rparr>" for z
  proof -
    have "0 \<le> niveau (s\<lparr>zoom := z\<rparr>)" using assms by simp
    from draw [OF this] obtain poly where
      "dessiner_flocon (s\<lparr>zoom := z\<rparr>) = Some (s\<lparr>zoom := z, canvas := [poly], info_zoom := z\<rparr>)"
      by auto
    then show ?thesis by simp
  qed
  have niv: "\<exists>s'. changer_niveau d s = Some s' \<and> zoom s' = zoom s \<and> pan_x s' = pan_x s \<and>
        pan_y s' = pan_y s \<and>
        s' = s\<lparr>niveau := niveau s', info_niveau := info_niveau s', canvas := canvas s',
               info_zoom := info_zoom s'\<rparr>"
  proof -
    have "0 \<le> niveau (s\<lparr>niveau := max 0 (min 7 (niveau s + d)),
        info_niveau := max 0 (min 7 (niveau s + d))\<rparr>)"
      by simp
    from draw [OF this] obtain poly where
      "changer_niveau d s = Some (s\<lparr>niveau := max 0 (min 7 (niveau s + d)),
        info_niveau := max 0 (min 7 (niveau s + d)), canvas := [poly], info_zoom := zoom s\<rparr>)"
      by (auto simp: changer_niveau_eq)
    then show ?thesis by simp
  qed
  show ?thesis
    unfolding zoomer_windows_eq zoomer_macos_eq zoomer_in_linux_eq zoomer_out_linux_eq
      zoomer_clavier_eq
    using dep zm niv by blast
qed

theorem handlers_frame_witness:
  "0 \<le> niveau (etat_initial\<lparr>dragging := True\<rparr>) \<and>
   (\<exists>s'. deplacer \<lparr>ev_x = 10, ev_y = 20, ev_delta = 0\<rparr> (etat_initial\<lparr>dragging := True\<rparr>) = Some s' \<and>
      zoom s' = 1 \<and> niveau s' = 4) \<and>
   (\<exists>s'. zoomer_clavier True (etat_initial\<lparr>dragging := True\<rparr>) = Some s' \<and>
      pan_x s' = 0 \<and> pan_y s' = 0 \<and> niveau s' = 4) \<and>
   (\<exists>s'. changer_niveau 1 (etat_initial\<lparr>dragging := True\<rparr>) = Some s' \<and>
      zoom s' = 1 \<and> pan_x s' = 0 \<and> pan_y s' = 0)"
proof -
  define s0 where "s0 = etat_initial\<lparr>dragging := True\<rparr>"
  have v: "zoom s0 = 1" "pan_x s0 = 0" "pan_y s0 = 0" "niveau s0 = 4"
    by (simp_all add: s0_def etat_initial_def NIVEAU_RECURSION_def)
  have n: "0 \<le> niveau s0" by (simp add: v)
  note T = handlers_frame [OF n, where e = "\<lparr>ev_x = 10, ev_y = 20, ev_delta = 0\<rparr>"
      and b = True and d = 1]
  have dep: "\<exists>s'. deplacer \<lparr>ev_x = 10, ev_y = 20, ev_delta = 0\<rparr> s0 = Some s' \<and>
      zoom s' = 1 \<and> niveau s' = 4"
    using T [THEN conjunct1] unfolding v by blast
  have zc: "\<exists>s'. zoomer_clavier True s0 = Some s' \<and> pan_x s' = 0 \<and> pan_y s' = 0 \<and> niveau s' = 4"
    using T [THEN conjunct2, THEN conjunct2, THEN conjunct2, THEN conjunct2, THEN conjunct2,
      THEN conjunct1] unfolding v by blast
  have cn: "\<exists>s'. changer_niveau 1 s0 = Some s' \<and> zoom s' = 1 \<and> pan_x s' = 0 \<and> pan_y s' = 0"
    using T [THEN conjunct2, THEN conjunct2, THEN conjunct2, THEN conjunct2, THEN conjunct2,
      THEN conjunct2] unfolding v by blast
  from n dep zc cn show ?thesis unfolding s0_def by blast
qed

end
